theory Spec2Isabelle
  imports Main
begin

section \<open>Values crossing the boundary of \<^verbatim>\<open>pull-request-core.ts\<close>\<close>

text \<open>
  A value thrown inside the pipeline is either an object built by \<^verbatim>\<open>new Error(msg)\<close>
  in this file, or whatever the Octokit client rejected its promise with. Of the latter
  the code reads the \<^verbatim>\<open>status\<close> property and the \<^verbatim>\<open>JSON.stringify\<close> image;
  both are carried as given by the client.
\<close>

datatype thrown =
    JsError string
  | RequestError "int option" string

fun status_of :: "thrown \<Rightarrow> int option" where
  "status_of (JsError msg) = None"
| "status_of (RequestError st js) = st"

text \<open>
  \<^verbatim>\<open>JSON.stringify\<close> prints the own enumerable properties of an object. The
  \<^verbatim>\<open>message\<close> and \<^verbatim>\<open>stack\<close> of an \<^verbatim>\<open>Error\<close> instance are not enumerable, so an
  \<^verbatim>\<open>Error\<close> made by \<^verbatim>\<open>new Error(msg)\<close> prints as the empty object.
\<close>

fun JSON_stringify :: "thrown \<Rightarrow> string" where
  "JSON_stringify (JsError msg) = ''{}''"
| "JSON_stringify (RequestError st js) = js"

text \<open>Truthiness of a string (\<^verbatim>\<open>''\<close> is falsy) and of an optional string property.\<close>

definition truthy :: "string \<Rightarrow> bool" where
  "truthy s = (s \<noteq> [])"

fun truthy_opt :: "string option \<Rightarrow> bool" where
  "truthy_opt None = False"
| "truthy_opt (Some s) = truthy s"

subsection \<open>Caller-supplied descriptors\<close>

text \<open>
  Modelled from the spec: the declarations of \<^verbatim>\<open>./types\<close> (\<^verbatim>\<open>PullRequest\<close>,
  \<^verbatim>\<open>SourceFile\<close>) are not part of the sources; the fields are the ones the code
  destructures, the optional ones being destination owner and repository and the two flags.
\<close>

record GitHubPullRequest =
  sourceOwner :: string
  sourceRepo :: string
  destinationBranch :: string
  sourceBranch :: string
  subject :: string
  description :: string
  destinationOwner :: "string option"
  destinationRepo :: "string option"
  maintainerCanModify :: "bool option"
  draft :: "bool option"

record SourceFile =
  path :: string
  content :: string

record CommitMetaData =
  authorName :: string
  authorEmail :: string
  commitMessage :: string

record ChangesetCommit =
  sourceFiles :: "SourceFile list"
  commitMetaData :: CommitMetaData

subsection \<open>Requests and responses of the Octokit client\<close>

record git_getRef_params =
  getRef_owner :: string
  getRef_repo :: string
  getRef_ref :: string

record git_createRef_params =
  createRef_owner :: string
  createRef_repo :: string
  createRef_ref :: string
  createRef_sha :: string

record tree_entry =
  entry_path :: string
  entry_content :: string
  entry_type :: string
  entry_mode :: string

record git_createTree_params =
  createTree_owner :: string
  createTree_repo :: string
  createTree_tree :: "tree_entry list"
  createTree_base_tree :: string

record git_getCommit_params =
  getCommit_owner :: string
  getCommit_repo :: string
  getCommit_commit_sha :: string

record commit_author =
  author_name :: string
  author_email :: string
  author_date :: string

record git_createCommit_params =
  createCommit_owner :: string
  createCommit_repo :: string
  createCommit_message :: string
  createCommit_tree :: string
  createCommit_author :: commit_author
  createCommit_parents :: "string list"

record git_updateRef_params =
  updateRef_owner :: string
  updateRef_repo :: string
  updateRef_ref :: string
  updateRef_sha :: string
  updateRef_force :: bool

record pulls_create_params =
  create_owner :: string
  create_repo :: string
  create_title :: string
  create_body :: string
  create_head :: string
  create_base :: string
  create_maintainer_can_modify :: "bool option"
  create_draft :: "bool option"

text \<open>Of each response only the properties the code reads are kept.\<close>

record git_ref =
  object_sha :: string

record git_tree =
  tree_sha :: string

record git_commit =
  commit_sha :: string

record PullsCreateResponse =
  html_url :: string

datatype request =
    GitGetRef git_getRef_params
  | GitCreateRef git_createRef_params
  | GitCreateTree git_createTree_params
  | GitGetCommit git_getCommit_params
  | GitCreateCommit git_createCommit_params
  | GitUpdateRef git_updateRef_params
  | PullsCreate pulls_create_params

datatype response =
    RefData git_ref
  | TreeData git_tree
  | CommitData git_commit
  | PullData PullsCreateResponse

text \<open>
  The client is a parameter: each method maps the request and the state of the remote
  service to a settled promise (rejected with a thrown value, or resolved with the
  response data) and the next state of the service.
\<close>

record 'r Octokit =
  git_getRef :: "git_getRef_params \<Rightarrow> 'r \<Rightarrow> (thrown + git_ref) \<times> 'r"
  git_createRef :: "git_createRef_params \<Rightarrow> 'r \<Rightarrow> (thrown + git_ref) \<times> 'r"
  git_createTree :: "git_createTree_params \<Rightarrow> 'r \<Rightarrow> (thrown + git_tree) \<times> 'r"
  git_getCommit :: "git_getCommit_params \<Rightarrow> 'r \<Rightarrow> (thrown + git_commit) \<times> 'r"
  git_createCommit :: "git_createCommit_params \<Rightarrow> 'r \<Rightarrow> (thrown + git_commit) \<times> 'r"
  git_updateRef :: "git_updateRef_params \<Rightarrow> 'r \<Rightarrow> (thrown + git_ref) \<times> 'r"
  pulls_create :: "pulls_create_params \<Rightarrow> 'r \<Rightarrow> (thrown + PullsCreateResponse) \<times> 'r"

subsection \<open>The world a publish call runs in\<close>

datatype NotificationType = Error | Warning | Info | Log | Success

text \<open>
  \<open>remote\<close> is the state of the hosting service, \<open>activeWindow\<close> says whether
  \<^verbatim>\<open>app.activeWindow\<close> is defined, \<open>notifications\<close> lists what
  \<^verbatim>\<open>showNotification\<close> was called with, \<open>now\<close> is \<^verbatim>\<open>new Date().toISOString()\<close>,
  and \<open>calls\<close> records every request sent through the client with how it settled.
\<close>

record 'r world =
  remote :: 'r
  activeWindow :: bool
  notifications :: "(string \<times> NotificationType) list"
  now :: string
  calls :: "(request \<times> (thrown + response)) list"

type_synonym ('r, 'a) async = "'r world \<Rightarrow> (thrown + 'a) \<times> 'r world"

definition await :: "('r, 'a) async \<Rightarrow> ('a \<Rightarrow> ('r, 'b) async) \<Rightarrow> ('r, 'b) async" where
  "await m k w = (case m w of (Inl e, w') \<Rightarrow> (Inl e, w') | (Inr a, w') \<Rightarrow> k a w')"

definition try_catch :: "('r, 'a) async \<Rightarrow> (thrown \<Rightarrow> ('r, 'a) async) \<Rightarrow> ('r, 'a) async" where
  "try_catch m h w = (case m w of (Inl e, w') \<Rightarrow> h e w' | (Inr a, w') \<Rightarrow> (Inr a, w'))"

definition return :: "'a \<Rightarrow> ('r, 'a) async" where
  "return a w = (Inr a, w)"

definition throw :: "thrown \<Rightarrow> ('r, 'a) async" where
  "throw e w = (Inl e, w)"

definition showNotification :: "string \<Rightarrow> NotificationType \<Rightarrow> ('r, unit) async" where
  "showNotification msg ty w = (Inr (), w\<lparr>notifications := notifications w @ [(msg, ty)]\<rparr>)"

definition request ::
  "('p \<Rightarrow> 'r \<Rightarrow> (thrown + 'a) \<times> 'r) \<Rightarrow> ('p \<Rightarrow> request) \<Rightarrow> ('a \<Rightarrow> response) \<Rightarrow> 'p \<Rightarrow> ('r, 'a) async" where
  "request method req resp p w =
     (case method p (remote w) of
        (res, r') \<Rightarrow> (res, w\<lparr>remote := r', calls := calls w @ [(req p, map_sum id resp res)]\<rparr>))"

section \<open>The client\<close>

text \<open>\<^verbatim>\<open>createCommitBranch\<close>: creates \<open>commitBranch\<close> from \<open>baseBranch\<close> and returns the sha.\<close>

definition createCommitBranch ::
  "'r Octokit \<Rightarrow> string \<Rightarrow> string \<Rightarrow> string \<Rightarrow> string \<Rightarrow> ('r, string) async" where
  "createCommitBranch octokit owner repo baseBranch commitBranch =
     await (request (git_getRef octokit) GitGetRef RefData
              \<lparr>getRef_owner = owner, getRef_repo = repo, getRef_ref = ''heads/'' @ baseBranch\<rparr>)
       (\<lambda>baseBranchRef.
     await (request (git_createRef octokit) GitCreateRef RefData
              \<lparr>createRef_owner = owner, createRef_repo = repo,
               createRef_ref = ''refs/heads/'' @ commitBranch,
               createRef_sha = object_sha baseBranchRef\<rparr>)
       (\<lambda>commitBranchRef. return (object_sha commitBranchRef)))"

text \<open>
  \<^verbatim>\<open>getCommitBranchSha\<close>: the sha of the commit branch if it exists; on a 404 the
  branch is created from the base branch; any other rejection is replaced by a fixed
  message. A rejection inside the \<^verbatim>\<open>catch\<close> block is not caught again.
\<close>

definition getCommitBranchSha ::
  "'r Octokit \<Rightarrow> string \<Rightarrow> string \<Rightarrow> string \<Rightarrow> string \<Rightarrow> ('r, string) async" where
  "getCommitBranchSha octokit owner repo baseBranch commitBranch =
     try_catch
       (await (request (git_getRef octokit) GitGetRef RefData
                 \<lparr>getRef_owner = owner, getRef_repo = repo, getRef_ref = ''heads/'' @ commitBranch\<rparr>)
          (\<lambda>data. return (object_sha data)))
       (\<lambda>e. if status_of e = Some 404
            then createCommitBranch octokit owner repo baseBranch commitBranch
            else throw (JsError ''Error looking up or creating branch. Is your GitHub token authorized?''))"

text \<open>
  \<^verbatim>\<open>createTree\<close>: creates a tree from the provided \<open>commitBranchSha\<close> for
  \<open>sourceFiles\<close> and returns the sha.
\<close>

definition tree_of_sourceFiles :: "SourceFile list \<Rightarrow> tree_entry list" where
  "tree_of_sourceFiles fs =
     map (\<lambda>f. \<lparr>entry_path = path f, entry_content = content f,
                entry_type = ''blob'', entry_mode = ''100644''\<rparr>) fs"

definition createTree ::
  "'r Octokit \<Rightarrow> string \<Rightarrow> string \<Rightarrow> string \<Rightarrow> SourceFile list \<Rightarrow> ('r, string) async" where
  "createTree octokit owner repo commitBranchSha files =
     await (request (git_createTree octokit) GitCreateTree TreeData
              \<lparr>createTree_owner = owner, createTree_repo = repo,
               createTree_tree = tree_of_sourceFiles files,
               createTree_base_tree = commitBranchSha\<rparr>)
       (\<lambda>data. return (tree_sha data))"

text \<open>\<^verbatim>\<open>pushCommit\<close>: pushes a commit of \<open>treeSha\<close> to \<open>commitBranch\<close> and returns the response.\<close>

definition pushCommit ::
  "'r Octokit \<Rightarrow> string \<Rightarrow> string \<Rightarrow> string \<Rightarrow> string \<Rightarrow> string \<Rightarrow> string \<Rightarrow> string \<Rightarrow> string
     \<Rightarrow> ('r, git_ref) async" where
  "pushCommit octokit owner repo commitBranch commitBranchSha treeSha aName aEmail message =
     await (request (git_getCommit octokit) GitGetCommit CommitData
              \<lparr>getCommit_owner = owner, getCommit_repo = repo,
               getCommit_commit_sha = commitBranchSha\<rparr>)
       (\<lambda>parentCommit.
     await (\<lambda>w. request (git_createCommit octokit) GitCreateCommit CommitData
              \<lparr>createCommit_owner = owner, createCommit_repo = repo,
               createCommit_message = message, createCommit_tree = treeSha,
               createCommit_author =
                 \<lparr>author_name = aName, author_email = aEmail, author_date = now w\<rparr>,
               createCommit_parents = [commit_sha parentCommit]\<rparr> w)
       (\<lambda>createdCommit.
     await (request (git_updateRef octokit) GitUpdateRef RefData
              \<lparr>updateRef_owner = owner, updateRef_repo = repo,
               updateRef_ref = ''heads/'' @ commitBranch,
               updateRef_sha = commit_sha createdCommit, updateRef_force = False\<rparr>)
       (\<lambda>ref. return ref)))"

text \<open>
  \<^verbatim>\<open>createPullRequest\<close>: the destination defaults, the creation request, and the
  handler that turns a 422 into a notification and the result \<^verbatim>\<open>undefined\<close>.
\<close>

definition destination :: "GitHubPullRequest \<Rightarrow> string \<times> string \<times> string" where
  "destination pr =
     (let (dOwner, dBranch) =
            (case destinationOwner pr of
               None \<Rightarrow> (sourceOwner pr, destinationBranch pr)
             | Some d \<Rightarrow>
                 if truthy d \<and> d \<noteq> sourceOwner pr
                 then (d, sourceOwner pr @ '':'' @ destinationBranch pr)
                 else (sourceOwner pr, destinationBranch pr));
          dRepo =
            (case destinationRepo pr of
               None \<Rightarrow> sourceRepo pr
             | Some r \<Rightarrow> if \<not> truthy r then sourceRepo pr else r)
      in (dOwner, dRepo, dBranch))"

definition createPullRequest ::
  "'r Octokit \<Rightarrow> GitHubPullRequest \<Rightarrow> ('r, PullsCreateResponse option) async" where
  "createPullRequest octokit pr =
     (case destination pr of (dOwner, dRepo, dBranch) \<Rightarrow>
        try_catch
          (await (request (pulls_create octokit) PullsCreate PullData
                    \<lparr>create_owner = dOwner, create_repo = dRepo,
                     create_title = subject pr, create_body = description pr,
                     create_head = sourceBranch pr, create_base = dBranch,
                     create_maintainer_can_modify = maintainerCanModify pr,
                     create_draft = draft pr\<rparr>)
             (\<lambda>pullResponse. return (Some pullResponse)))
          (\<lambda>e. if status_of e = Some 422
               then (\<lambda>w. if \<not> activeWindow w then throw (JsError ''No active window'') w
                         else await (showNotification
                                       ''PR updated with new commit (branch already exists).''
                                       Warning)
                                (\<lambda>_. return None) w)
               else throw (JsError (''Error: '' @ JSON_stringify e))))"

definition issuePullRequest ::
  "'r Octokit \<Rightarrow> GitHubPullRequest \<Rightarrow> ChangesetCommit
     \<Rightarrow> ('r, PullsCreateResponse option) async" where
  "issuePullRequest octokit pr cs =
     await (getCommitBranchSha octokit (sourceOwner pr) (sourceRepo pr)
              (destinationBranch pr) (sourceBranch pr))
       (\<lambda>commitBranchSha.
     await (createTree octokit (sourceOwner pr) (sourceRepo pr) commitBranchSha (sourceFiles cs))
       (\<lambda>treeSha.
     await (pushCommit octokit (sourceOwner pr) (sourceRepo pr) (sourceBranch pr)
              commitBranchSha treeSha
              (authorName (commitMetaData cs)) (authorEmail (commitMetaData cs))
              (commitMessage (commitMetaData cs)))
       (\<lambda>_. createPullRequest octokit pr)))"

section \<open>The exported entry point\<close>

text \<open>
  \<^verbatim>\<open>new Client(gitHubAccessToken)\<close> builds the Octokit client from the token; the
  constructor of the library is the parameter \<open>newOctokit\<close>.
\<close>

definition Client :: "(string \<Rightarrow> 'r Octokit) \<Rightarrow> string \<Rightarrow> 'r Octokit" where
  "Client newOctokit gitHubAccessToken = newOctokit gitHubAccessToken"

definition created_message :: "string \<Rightarrow> string" where
  "created_message url =
     [CHR 0xF0, CHR 0x9F, CHR 0x98, CHR 0x8E] @ '' PR Created:'' @ [CHR 0x0A] @ url"

text \<open>The body of the \<^verbatim>\<open>try\<close> block of \<^verbatim>\<open>issuePullRequestWithToken\<close>.\<close>

definition issuePullRequestWithToken_try ::
  "'r Octokit \<Rightarrow> GitHubPullRequest \<Rightarrow> ChangesetCommit \<Rightarrow> ('r, unit) async" where
  "issuePullRequestWithToken_try client pr cs =
     await (issuePullRequest client pr cs)
       (\<lambda>result w.
          if \<not> activeWindow w then throw (JsError ''No active window'') w
          else (case result of
                  Some r \<Rightarrow>
                    if truthy (html_url r)
                    then showNotification (created_message (html_url r)) Success w
                    else return () w
                | None \<Rightarrow> return () w))"

definition unhandled_message :: "thrown \<Rightarrow> string" where
  "unhandled_message e = ''Unhandled error in GH response'' @ [CHR 0x0A] @ JSON_stringify e"

definition issuePullRequestWithToken ::
  "(string \<Rightarrow> 'r Octokit) \<Rightarrow> GitHubPullRequest \<Rightarrow> ChangesetCommit \<Rightarrow> string \<Rightarrow> ('r, unit) async" where
  "issuePullRequestWithToken newOctokit pr cs gitHubAccessToken =
     try_catch (issuePullRequestWithToken_try (Client newOctokit gitHubAccessToken) pr cs)
       (\<lambda>e. throw (JsError (unhandled_message e)))"

text \<open>The requests a call added to the record of the world.\<close>

definition new_calls :: "'r world \<Rightarrow> 'r world \<Rightarrow> (request \<times> (thrown + response)) list" where
  "new_calls w w' = drop (length (calls w)) (calls w')"

definition new_notifications :: "'r world \<Rightarrow> 'r world \<Rightarrow> (string \<times> NotificationType) list" where
  "new_notifications w w' = drop (length (notifications w)) (notifications w')"

section \<open>Vocabulary of the properties\<close>

fun is_GitCreateRef :: "request \<Rightarrow> bool" where
  "is_GitCreateRef (GitCreateRef p) = True"
| "is_GitCreateRef rq = False"



text \<open>
  A stage is quiet when it leaves the window and the notifications alone and only adds
  the requests \<open>evs\<close> to the record.
\<close>

definition quiet :: "'r world \<Rightarrow> 'r world \<Rightarrow> (request \<times> (thrown + response)) list \<Rightarrow> bool" where
  "quiet w w' evs \<longleftrightarrow>
     activeWindow w' = activeWindow w \<and> notifications w' = notifications w \<and> now w' = now w
     \<and> calls w' = calls w @ evs"

text \<open>The request that \<^verbatim>\<open>createPullRequest\<close> sends for a descriptor.\<close>

definition create_request :: "GitHubPullRequest \<Rightarrow> pulls_create_params" where
  "create_request pr =
     (case destination pr of (dOwner, dRepo, dBranch) \<Rightarrow>
        \<lparr>create_owner = dOwner, create_repo = dRepo,
         create_title = subject pr, create_body = description pr,
         create_head = sourceBranch pr, create_base = dBranch,
         create_maintainer_can_modify = maintainerCanModify pr,
         create_draft = draft pr\<rparr>)"









subsection \<open>A scripted remote for concrete runs\<close>

text \<open>
  A client without state: reference lookups are answered by \<open>lookup\<close> on the reference
  name, the reference update by \<open>update\<close>, the pull-request creation by \<open>pull\<close>;
  a created reference and a fetched commit carry the sha that was asked for.
\<close>

definition scripted ::
  "(string \<Rightarrow> thrown + git_ref) \<Rightarrow> (thrown + git_ref) \<Rightarrow> (thrown + PullsCreateResponse)
     \<Rightarrow> unit Octokit" where
  "scripted lookup update pull =
     \<lparr>git_getRef = (\<lambda>p r. (lookup (getRef_ref p), r)),
      git_createRef = (\<lambda>p r. (Inr \<lparr>object_sha = createRef_sha p\<rparr>, r)),
      git_createTree = (\<lambda>p r. (Inr \<lparr>tree_sha = ''t1''\<rparr>, r)),
      git_getCommit = (\<lambda>p r. (Inr \<lparr>commit_sha = getCommit_commit_sha p\<rparr>, r)),
      git_createCommit = (\<lambda>p r. (Inr \<lparr>commit_sha = ''c1''\<rparr>, r)),
      git_updateRef = (\<lambda>p r. (update, r)),
      pulls_create = (\<lambda>p r. (pull, r))\<rparr>"

definition branch_exists :: "string \<Rightarrow> thrown + git_ref" where
  "branch_exists ref = Inr \<lparr>object_sha = ''s0''\<rparr>"

definition only_main :: "string \<Rightarrow> thrown + git_ref" where
  "only_main ref =
     (if ref = ''heads/main'' then Inr \<lparr>object_sha = ''s0''\<rparr>
      else Inl (RequestError (Some 404) ''Not Found''))"

definition alice_pr :: GitHubPullRequest where
  "alice_pr =
     \<lparr>sourceOwner = ''alice'', sourceRepo = ''demo'', destinationBranch = ''main'',
      sourceBranch = ''feature-x'', subject = ''t'', description = ''d'',
      destinationOwner = None, destinationRepo = None,
      maintainerCanModify = None, draft = None\<rparr>"

definition one_file :: ChangesetCommit where
  "one_file =
     \<lparr>sourceFiles = [\<lparr>path = ''a.txt'', content = ''x''\<rparr>],
      commitMetaData = \<lparr>authorName = ''al'', authorEmail = ''al@e'', commitMessage = ''m''\<rparr>\<rparr>"

definition fresh :: "bool \<Rightarrow> unit world" where
  "fresh win =
     \<lparr>remote = (), activeWindow = win, notifications = [], now = ''2019'', calls = []\<rparr>"

text \<open>
  The client built for any token when both branches exist: \<open>update\<close> answers the
  reference update and \<open>pull\<close> the pull-request creation.
\<close>

definition remote_with ::
  "(thrown + git_ref) \<Rightarrow> (thrown + PullsCreateResponse) \<Rightarrow> string \<Rightarrow> unit Octokit" where
  "remote_with update pull tok = scripted branch_exists update pull"

text \<open>
  Remotes that differ from \<open>scripted\<close> in one answer: what a commit lookup returns,
  and, with the commit branch absent, what the creation of a reference returns.
\<close>

definition with_getCommit :: "(thrown + git_commit) \<Rightarrow> unit Octokit" where
  "with_getCommit answer =
     (scripted branch_exists (Inr \<lparr>object_sha = ''c1''\<rparr>) (Inr \<lparr>html_url = ''u''\<rparr>))
       \<lparr>git_getCommit := (\<lambda>p r. (answer, r))\<rparr>"

definition with_createRef :: "(thrown + git_ref) \<Rightarrow> unit Octokit" where
  "with_createRef answer =
     (scripted only_main (Inr \<lparr>object_sha = ''c1''\<rparr>) (Inr \<lparr>html_url = ''u''\<rparr>))
       \<lparr>git_createRef := (\<lambda>p r. (answer, r))\<rparr>"

text \<open>The parent lists of the commit-creation requests in a record, in order.\<close>

fun created_parents :: "(request \<times> (thrown + response)) list \<Rightarrow> string list list" where
  "created_parents [] = []"
| "created_parents ((GitCreateCommit cp, out) # evs) = createCommit_parents cp # created_parents evs"
| "created_parents (ev # evs) = created_parents evs"

subsection \<open>What a tree holds\<close>

text \<open>
  The code never reads a tree back, so what a tree sha stands for is a parameter \<open>trees\<close>
  of the statements about it: the content found under each path. A remote layers on the base
  when every tree it creates from blob entries of mode \<^verbatim>\<open>100644\<close> holds, under each
  submitted path, the content of a submitted entry with that path, and under every other
  path what the tree named by \<^verbatim>\<open>base_tree\<close> held.
\<close>

definition layers_on_base :: "('r \<Rightarrow> string \<Rightarrow> string \<Rightarrow> string option) \<Rightarrow> 'r Octokit \<Rightarrow> bool" where
  "layers_on_base trees octokit \<longleftrightarrow>
     (\<forall>p r d r'.
        git_createTree octokit p r = (Inr d, r') \<longrightarrow>
        (\<forall>e\<in>set (createTree_tree p). entry_type e = ''blob'' \<and> entry_mode e = ''100644'') \<longrightarrow>
        (\<forall>pth.
           (pth \<in> entry_path ` set (createTree_tree p) \<longrightarrow>
              (\<exists>e\<in>set (createTree_tree p).
                 entry_path e = pth \<and> trees r' (tree_sha d) pth = Some (entry_content e)))
         \<and> (pth \<notin> entry_path ` set (createTree_tree p) \<longrightarrow>
              trees r' (tree_sha d) pth = trees r (createTree_base_tree p) pth)))"

text \<open>
  A remote with a store of trees, for concrete runs: every created tree gets the sha
  \<^verbatim>\<open>t1\<close>; with \<open>layered\<close> it starts from the files of the base tree, without it the
  base tree is ignored.
\<close>

type_synonym tree_store = "(string \<times> (string \<times> string) list) list"

definition tree_at :: "tree_store \<Rightarrow> string \<Rightarrow> string \<Rightarrow> string option" where
  "tree_at r sha pth = (case map_of r sha of None \<Rightarrow> None | Some fs \<Rightarrow> map_of fs pth)"

definition tree_host :: "bool \<Rightarrow> tree_store Octokit" where
  "tree_host layered =
     \<lparr>git_getRef = (\<lambda>p r. (Inr \<lparr>object_sha = ''s0''\<rparr>, r)),
      git_createRef = (\<lambda>p r. (Inr \<lparr>object_sha = createRef_sha p\<rparr>, r)),
      git_createTree = (\<lambda>p r.
        (Inr \<lparr>tree_sha = ''t1''\<rparr>,
         (''t1'', map (\<lambda>e. (entry_path e, entry_content e)) (createTree_tree p)
                  @ (if layered
                     then (case map_of r (createTree_base_tree p) of None \<Rightarrow> [] | Some fs \<Rightarrow> fs)
                     else [])) # r)),
      git_getCommit = (\<lambda>p r. (Inr \<lparr>commit_sha = getCommit_commit_sha p\<rparr>, r)),
      git_createCommit = (\<lambda>p r. (Inr \<lparr>commit_sha = ''c1''\<rparr>, r)),
      git_updateRef = (\<lambda>p r. (Inr \<lparr>object_sha = ''c1''\<rparr>, r)),
      pulls_create = (\<lambda>p r. (Inr \<lparr>html_url = ''u''\<rparr>, r))\<rparr>"

definition stocked :: "tree_store world" where
  "stocked =
     \<lparr>remote = [(''s0'', [(''old.txt'', ''o'')])], activeWindow = True, notifications = [],
      now = ''2019'', calls = []\<rparr>"

section \<open>How each stage extends the record of requests\<close>

lemmas async_defs = await_def try_catch_def return_def throw_def showNotification_def

lemma request_run:
  "request m rq rs p w = (res, w') \<Longrightarrow>
     quiet w w' [(rq p, map_sum id rs res)] \<and> m p (remote w) = (res, remote w')"
  by (auto simp add: request_def quiet_def split: prod.splits)


lemma new_calls_append: "calls w' = calls w @ evs \<Longrightarrow> new_calls w w' = evs"
  by (simp add: new_calls_def)

lemma new_notifications_append:
  "notifications w' = notifications w @ ns \<Longrightarrow> new_notifications w w' = ns"
  by (simp add: new_notifications_def)








lemma issuePullRequestWithToken_cases:
  "issuePullRequestWithToken newOctokit pr cs tok w =
     (case issuePullRequestWithToken_try (Client newOctokit tok) pr cs w of
        (Inl e, w') \<Rightarrow> (Inl (JsError (unhandled_message e)), w')
      | (Inr u, w') \<Rightarrow> (Inr u, w'))"
  by (simp add: issuePullRequestWithToken_def try_catch_def throw_def split: prod.splits sum.splits)








lemmas run_defs =
  issuePullRequestWithToken_def issuePullRequestWithToken_try_def Client_def
  issuePullRequest_def createPullRequest_def pushCommit_def createTree_def
  getCommitBranchSha_def createCommitBranch_def destination_def tree_of_sourceFiles_def
  await_def try_catch_def return_def throw_def showNotification_def request_def
  scripted_def remote_with_def branch_exists_def only_main_def alice_pr_def one_file_def
  fresh_def new_calls_def new_notifications_def truthy_def unhandled_message_def
  create_request_def

lemma createPullRequest_client:
  assumes "createPullRequest octokit pr w = (res, w')"
  shows "\<exists>out. pulls_create octokit (create_request pr) (remote w) = (out, remote w')
           \<and> calls w' = calls w @ [(PullsCreate (create_request pr), map_sum id PullData out)]
           \<and> (\<forall>d. out = Inr d \<longrightarrow> res = Inr (Some d))"
  using assms
  unfolding createPullRequest_def create_request_def async_defs
  by (auto split: prod.splits sum.splits if_splits dest!: request_run simp: quiet_def)

lemma tree_of_sourceFiles_blobs:
  "\<forall>e\<in>set (tree_of_sourceFiles files). entry_type e = ''blob'' \<and> entry_mode e = ''100644''"
  by (auto simp add: tree_of_sourceFiles_def)

lemma tree_of_sourceFiles_paths:
  "entry_path ` set (tree_of_sourceFiles files) = path ` set files"
  by (force simp add: tree_of_sourceFiles_def)

lemma tree_of_sourceFiles_entry:
  "e \<in> set (tree_of_sourceFiles files) \<Longrightarrow>
     \<exists>f\<in>set files. path f = entry_path e \<and> content f = entry_content e"
  by (auto simp add: tree_of_sourceFiles_def)

lemma tree_host_layers: "layers_on_base tree_at (tree_host True)"
  unfolding layers_on_base_def
proof (intro allI impI conjI)
  fix p r d r' pth
  assume a: "git_createTree (tree_host True) p r = (Inr d, r')"
    and t: "pth \<in> entry_path ` set (createTree_tree p)"
  let ?new = "map (\<lambda>e. (entry_path e, entry_content e)) (createTree_tree p)"
  let ?old = "case map_of r (createTree_base_tree p) of None \<Rightarrow> [] | Some fs \<Rightarrow> fs"
  from a have d: "tree_sha d = ''t1''" and r': "r' = (''t1'', ?new @ ?old) # r"
    by (auto simp add: tree_host_def)
  have at: "tree_at r' (tree_sha d) pth = map_of (?new @ ?old) pth"
    by (simp add: d r' tree_at_def)
  from t have "pth \<in> fst ` set ?new"
    by force
  then obtain c where c: "map_of ?new pth = Some c"
    by (metis domD dom_map_of_conv_image_fst)
  then have "(pth, c) \<in> set ?new"
    by (rule map_of_SomeD)
  then obtain e where e: "e \<in> set (createTree_tree p)" "entry_path e = pth" "entry_content e = c"
    by auto
  have "map_of (?new @ ?old) pth = Some c"
    using c by (simp add: map_add_Some_iff)
  with e at show "\<exists>e\<in>set (createTree_tree p).
                 entry_path e = pth \<and> tree_at r' (tree_sha d) pth = Some (entry_content e)"
    by auto
next
  fix p r d r' pth
  assume a: "git_createTree (tree_host True) p r = (Inr d, r')"
    and f: "pth \<notin> entry_path ` set (createTree_tree p)"
  let ?new = "map (\<lambda>e. (entry_path e, entry_content e)) (createTree_tree p)"
  let ?old = "case map_of r (createTree_base_tree p) of None \<Rightarrow> [] | Some fs \<Rightarrow> fs"
  from a have d: "tree_sha d = ''t1''" and r': "r' = (''t1'', ?new @ ?old) # r"
    by (auto simp add: tree_host_def)
  have at: "tree_at r' (tree_sha d) pth = map_of (?new @ ?old) pth"
    by (simp add: d r' tree_at_def)
  from f have "pth \<notin> fst ` set ?new"
    by force
  then have "map_of ?new pth = None"
    by (simp add: map_of_eq_None_iff)
  then have "map_of (?new @ ?old) pth = map_of ?old pth"
    by (simp add: map_add_def)
  moreover have "map_of ?old pth = tree_at r (createTree_base_tree p) pth"
    by (simp add: tree_at_def split: option.splits)
  ultimately show "tree_at r' (tree_sha d) pth = tree_at r (createTree_base_tree p) pth"
    using at by simp
qed

section \<open>The branch resolver\<close>

text \<open>
  Claim C3. When the lookup of the commit branch succeeds, \<^verbatim>\<open>getCommitBranchSha\<close>
  returns the sha of that reference as the remote reported it. The lookup is the only
  request it sends; in particular no reference is created.
\<close>

theorem getCommitBranchSha_existing:
  assumes "git_getRef octokit
             \<lparr>getRef_owner = owner, getRef_repo = repo, getRef_ref = ''heads/'' @ commitBranch\<rparr>
             (remote w) = (Inr d, r')"
  shows "\<exists>w'. getCommitBranchSha octokit owner repo baseBranch commitBranch w = (Inr (object_sha d), w')
           \<and> new_calls w w' =
               [(GitGetRef \<lparr>getRef_owner = owner, getRef_repo = repo,
                            getRef_ref = ''heads/'' @ commitBranch\<rparr>, Inr (RefData d))]
           \<and> (\<forall>ev\<in>set (new_calls w w'). \<not> is_GitCreateRef (fst ev))
           \<and> remote w' = r'"
  using assms by (simp add: getCommitBranchSha_def async_defs request_def new_calls_def)

theorem getCommitBranchSha_existing_witness:
  "\<exists>w'. getCommitBranchSha (scripted branch_exists (Inr \<lparr>object_sha = ''c1''\<rparr>) (Inr \<lparr>html_url = ''u''\<rparr>))
           ''alice'' ''demo'' ''main'' ''feature-x'' (fresh True) = (Inr ''s0'', w')
        \<and> new_calls (fresh True) w' =
             [(GitGetRef \<lparr>getRef_owner = ''alice'', getRef_repo = ''demo'',
                          getRef_ref = ''heads/feature-x''\<rparr>, Inr (RefData \<lparr>object_sha = ''s0''\<rparr>))]"
  using getCommitBranchSha_existing
    [of "scripted branch_exists (Inr \<lparr>object_sha = ''c1''\<rparr>) (Inr \<lparr>html_url = ''u''\<rparr>)"
        "''alice''" "''demo''" "''feature-x''" "fresh True" "\<lparr>object_sha = ''s0''\<rparr>" "()" "''main''"]
  by (auto simp add: scripted_def branch_exists_def fresh_def)

text \<open>
  Claim C4, as the code has it. When the lookup of the commit branch is rejected with status
  404 and the base branch is found with tip \<open>S\<close>, \<^verbatim>\<open>getCommitBranchSha\<close> sends the
  client the request to create \<^verbatim>\<open>refs/heads/<commitBranch>\<close> at \<open>S\<close>, after the two
  lookups and nothing else. What it returns is decided by the answer to that request: the
  sha the answer reports when the reference was created, which is \<open>S\<close> when the remote
  reports the reference it was asked for, and the rejection itself when it was not.
\<close>

theorem getCommitBranchSha_creates:
  assumes absent: "git_getRef octokit
             \<lparr>getRef_owner = owner, getRef_repo = repo, getRef_ref = ''heads/'' @ commitBranch\<rparr>
             (remote w) = (Inl e, r1)" "status_of e = Some 404"
    and base: "git_getRef octokit
             \<lparr>getRef_owner = owner, getRef_repo = repo, getRef_ref = ''heads/'' @ baseBranch\<rparr>
             r1 = (Inr b, r2)" "object_sha b = S"
    and answer: "git_createRef octokit
             \<lparr>createRef_owner = owner, createRef_repo = repo,
              createRef_ref = ''refs/heads/'' @ commitBranch, createRef_sha = S\<rparr>
             r2 = (out, r3)"
  shows "getCommitBranchSha octokit owner repo baseBranch commitBranch w =
           ((case out of Inl rejection \<Rightarrow> Inl rejection | Inr c \<Rightarrow> Inr (object_sha c)),
            w\<lparr>remote := r3,
              calls := calls w @
               [(GitGetRef \<lparr>getRef_owner = owner, getRef_repo = repo,
                            getRef_ref = ''heads/'' @ commitBranch\<rparr>, Inl e),
                (GitGetRef \<lparr>getRef_owner = owner, getRef_repo = repo,
                            getRef_ref = ''heads/'' @ baseBranch\<rparr>, Inr (RefData b)),
                (GitCreateRef \<lparr>createRef_owner = owner, createRef_repo = repo,
                     createRef_ref = ''refs/heads/'' @ commitBranch, createRef_sha = S\<rparr>,
                   map_sum id RefData out)]\<rparr>)
         \<and> (\<forall>c. out = Inr c \<and> object_sha c = S \<longrightarrow>
               fst (getCommitBranchSha octokit owner repo baseBranch commitBranch w) = Inr S)"
  using assms
  by (cases out)
    (simp_all add: getCommitBranchSha_def createCommitBranch_def async_defs request_def)

theorem getCommitBranchSha_creates_witness:
  "getCommitBranchSha (with_createRef (Inr \<lparr>object_sha = ''s0''\<rparr>))
      ''alice'' ''demo'' ''main'' ''feature-x'' (fresh True) =
     (Inr ''s0'',
      (fresh True)\<lparr>calls :=
               [(GitGetRef \<lparr>getRef_owner = ''alice'', getRef_repo = ''demo'',
                            getRef_ref = ''heads/feature-x''\<rparr>, Inl (RequestError (Some 404) ''Not Found'')),
                (GitGetRef \<lparr>getRef_owner = ''alice'', getRef_repo = ''demo'',
                            getRef_ref = ''heads/main''\<rparr>, Inr (RefData \<lparr>object_sha = ''s0''\<rparr>)),
                (GitCreateRef \<lparr>createRef_owner = ''alice'', createRef_repo = ''demo'',
                     createRef_ref = ''refs/heads/feature-x'', createRef_sha = ''s0''\<rparr>,
                   Inr (RefData \<lparr>object_sha = ''s0''\<rparr>))]\<rparr>)"
  using getCommitBranchSha_creates
    [of "with_createRef (Inr \<lparr>object_sha = ''s0''\<rparr>)"
        "''alice''" "''demo''" "''feature-x''" "fresh True" "RequestError (Some 404) ''Not Found''" "()"
        "''main''" "\<lparr>object_sha = ''s0''\<rparr>" "()" "''s0''" "Inr \<lparr>object_sha = ''s0''\<rparr>" "()"]
  by (simp add: with_createRef_def scripted_def only_main_def fresh_def)

text \<open>
  With the creation rejected the call throws, and with a remote that reports another sha
  the call returns that sha, not the tip of the base branch.
\<close>

theorem getCommitBranchSha_creates_counterexample:
  "fst (getCommitBranchSha (with_createRef (Inl (RequestError (Some 403) ''Forbidden'')))
          ''alice'' ''demo'' ''main'' ''feature-x'' (fresh True))
     = Inl (RequestError (Some 403) ''Forbidden'')
   \<and> fst (getCommitBranchSha (with_createRef (Inr \<lparr>object_sha = ''zz''\<rparr>))
          ''alice'' ''demo'' ''main'' ''feature-x'' (fresh True))
     = Inr ''zz''
   \<and> fst (getCommitBranchSha (with_createRef (Inr \<lparr>object_sha = ''zz''\<rparr>))
          ''alice'' ''demo'' ''main'' ''feature-x'' (fresh True))
     \<noteq> Inr ''s0''"
  by (simp add: run_defs with_createRef_def)

section \<open>The tree builder\<close>

text \<open>
  Claim C9, as the code has it. For every list of files \<^verbatim>\<open>createTree\<close> sends the
  client one tree-creation request: its entries are the files in order, each with its own
  path and content, type \<^verbatim>\<open>blob\<close> and mode \<^verbatim>\<open>100644\<close>, and its \<^verbatim>\<open>base_tree\<close> is
  the sha supplied. The result is the sha of the tree the client answered with, or the
  rejection as it came. On a remote that layers on the base, the tree returned holds under
  each path of the files the content of a file with that path, and under every other path
  what the base tree held.
\<close>

theorem createTree_request:
  "\<exists>out r'.
     git_createTree octokit
       \<lparr>createTree_owner = owner, createTree_repo = repo,
        createTree_tree =
          map (\<lambda>f. \<lparr>entry_path = path f, entry_content = content f,
                     entry_type = ''blob'', entry_mode = ''100644''\<rparr>) files,
        createTree_base_tree = commitBranchSha\<rparr>
       (remote w) = (out, r')
   \<and> createTree octokit owner repo commitBranchSha files w =
       ((case out of Inl rejection \<Rightarrow> Inl rejection | Inr d \<Rightarrow> Inr (tree_sha d)),
        w\<lparr>remote := r',
          calls := calls w @
            [(GitCreateTree
                \<lparr>createTree_owner = owner, createTree_repo = repo,
                 createTree_tree =
                   map (\<lambda>f. \<lparr>entry_path = path f, entry_content = content f,
                              entry_type = ''blob'', entry_mode = ''100644''\<rparr>) files,
                 createTree_base_tree = commitBranchSha\<rparr>, map_sum id TreeData out)]\<rparr>)
   \<and> (layers_on_base trees octokit \<longrightarrow>
        (\<forall>d pth. out = Inr d \<longrightarrow>
           (pth \<in> path ` set files \<longrightarrow>
              (\<exists>f\<in>set files. path f = pth \<and> trees r' (tree_sha d) pth = Some (content f)))
         \<and> (pth \<notin> path ` set files \<longrightarrow>
              trees r' (tree_sha d) pth = trees (remote w) commitBranchSha pth)))"
proof -
  let ?p = "\<lparr>createTree_owner = owner, createTree_repo = repo,
             createTree_tree = tree_of_sourceFiles files,
             createTree_base_tree = commitBranchSha\<rparr>"
  obtain out r' where m: "git_createTree octokit ?p (remote w) = (out, r')"
    by force
  have run: "createTree octokit owner repo commitBranchSha files w =
       ((case out of Inl rejection \<Rightarrow> Inl rejection | Inr d \<Rightarrow> Inr (tree_sha d)),
        w\<lparr>remote := r', calls := calls w @ [(GitCreateTree ?p, map_sum id TreeData out)]\<rparr>)"
    using m by (cases out) (simp_all add: createTree_def async_defs request_def)
  have blobs: "\<forall>e\<in>set (createTree_tree ?p). entry_type e = ''blob'' \<and> entry_mode e = ''100644''"
    using tree_of_sourceFiles_blobs [of files] by simp
  have layer: "(pth \<in> path ` set files \<longrightarrow>
              (\<exists>f\<in>set files. path f = pth \<and> trees r' (tree_sha d) pth = Some (content f)))
         \<and> (pth \<notin> path ` set files \<longrightarrow>
              trees r' (tree_sha d) pth = trees (remote w) commitBranchSha pth)"
    if l: "layers_on_base trees octokit" and d: "out = Inr d" for d pth
  proof -
    from m d have m': "git_createTree octokit ?p (remote w) = (Inr d, r')"
      by simp
    from l [unfolded layers_on_base_def, rule_format, OF m' blobs [rule_format], of pth]
    have *: "(pth \<in> path ` set files \<longrightarrow>
               (\<exists>e\<in>set (tree_of_sourceFiles files).
                      entry_path e = pth \<and> trees r' (tree_sha d) pth = Some (entry_content e)))
             \<and> (pth \<notin> path ` set files \<longrightarrow>
                  trees r' (tree_sha d) pth = trees (remote w) commitBranchSha pth)"
      by (simp add: tree_of_sourceFiles_paths)
    show ?thesis
    proof (cases "pth \<in> path ` set files")
      case True
      with * obtain e where e: "e \<in> set (tree_of_sourceFiles files)" "entry_path e = pth"
        "trees r' (tree_sha d) pth = Some (entry_content e)"
        by auto
      from tree_of_sourceFiles_entry [OF e(1)] obtain f where
        "f \<in> set files" "path f = entry_path e" "content f = entry_content e"
        by blast
      with e(2,3) have "\<exists>f\<in>set files. path f = pth \<and> trees r' (tree_sha d) pth = Some (content f)"
        by auto
      with True show ?thesis
        by simp
    next
      case False
      with * show ?thesis
        by simp
    qed
  qed
  show ?thesis
  proof (intro exI [of _ out] exI [of _ r'] conjI impI allI)
    show "git_createTree octokit
       \<lparr>createTree_owner = owner, createTree_repo = repo,
        createTree_tree =
          map (\<lambda>f. \<lparr>entry_path = path f, entry_content = content f,
                     entry_type = ''blob'', entry_mode = ''100644''\<rparr>) files,
        createTree_base_tree = commitBranchSha\<rparr>
       (remote w) = (out, r')"
      using m by (simp add: tree_of_sourceFiles_def)
    show "createTree octokit owner repo commitBranchSha files w =
       ((case out of Inl rejection \<Rightarrow> Inl rejection | Inr d \<Rightarrow> Inr (tree_sha d)),
        w\<lparr>remote := r',
          calls := calls w @
            [(GitCreateTree
                \<lparr>createTree_owner = owner, createTree_repo = repo,
                 createTree_tree =
                   map (\<lambda>f. \<lparr>entry_path = path f, entry_content = content f,
                              entry_type = ''blob'', entry_mode = ''100644''\<rparr>) files,
                 createTree_base_tree = commitBranchSha\<rparr>, map_sum id TreeData out)]\<rparr>)"
      using run by (simp add: tree_of_sourceFiles_def)
  next
    fix d pth
    assume "layers_on_base trees octokit" "out = Inr d" "pth \<in> path ` set files"
    with layer show "\<exists>f\<in>set files. path f = pth \<and> trees r' (tree_sha d) pth = Some (content f)"
      by blast
  next
    fix d pth
    assume "layers_on_base trees octokit" "out = Inr d" "pth \<notin> path ` set files"
    with layer show "trees r' (tree_sha d) pth = trees (remote w) commitBranchSha pth"
      by blast
  qed
qed

theorem createTree_request_witness:
  "layers_on_base tree_at (tree_host True)
   \<and> fst (createTree (tree_host True) ''alice'' ''demo'' ''s0'' (sourceFiles one_file) stocked) = Inr ''t1''
   \<and> tree_at (remote (snd (createTree (tree_host True) ''alice'' ''demo'' ''s0'' (sourceFiles one_file) stocked)))
        ''t1'' ''a.txt'' = Some ''x''
   \<and> tree_at (remote (snd (createTree (tree_host True) ''alice'' ''demo'' ''s0'' (sourceFiles one_file) stocked)))
        ''t1'' ''old.txt'' = tree_at (remote stocked) ''s0'' ''old.txt''"
proof -
  let ?run = "createTree (tree_host True) ''alice'' ''demo'' ''s0'' (sourceFiles one_file) stocked"
  from createTree_request
    [of "tree_host True" "''alice''" "''demo''" "sourceFiles one_file" "''s0''" stocked tree_at]
  obtain out r' where
    m: "git_createTree (tree_host True)
          \<lparr>createTree_owner = ''alice'', createTree_repo = ''demo'',
           createTree_tree =
             map (\<lambda>f. \<lparr>entry_path = path f, entry_content = content f,
                        entry_type = ''blob'', entry_mode = ''100644''\<rparr>) (sourceFiles one_file),
           createTree_base_tree = ''s0''\<rparr>
          (remote stocked) = (out, r')"
    and run: "fst ?run = (case out of Inl rejection \<Rightarrow> Inl rejection | Inr d \<Rightarrow> Inr (tree_sha d))"
      "remote (snd ?run) = r'"
    and layer: "layers_on_base tree_at (tree_host True) \<longrightarrow>
        (\<forall>d pth. out = Inr d \<longrightarrow>
           (pth \<in> path ` set (sourceFiles one_file) \<longrightarrow>
              (\<exists>f\<in>set (sourceFiles one_file). path f = pth \<and> tree_at r' (tree_sha d) pth = Some (content f)))
         \<and> (pth \<notin> path ` set (sourceFiles one_file) \<longrightarrow>
              tree_at r' (tree_sha d) pth = tree_at (remote stocked) ''s0'' pth))"
    by auto
  from m have out: "out = Inr \<lparr>tree_sha = ''t1''\<rparr>"
    by (auto simp add: tree_host_def)
  from layer tree_host_layers out
  have "\<exists>f\<in>set (sourceFiles one_file). path f = ''a.txt'' \<and> tree_at r' ''t1'' ''a.txt'' = Some (content f)"
    and "tree_at r' ''t1'' ''old.txt'' = tree_at (remote stocked) ''s0'' ''old.txt''"
    by (auto simp add: one_file_def)
  with run out tree_host_layers show ?thesis
    by (auto simp add: one_file_def)
qed

text \<open>
  On a remote that builds the tree from the submitted entries alone, a file of the base
  tree that the request does not mention is missing from the tree returned.
\<close>

theorem createTree_request_counterexample:
  "fst (createTree (tree_host False) ''alice'' ''demo'' ''s0'' (sourceFiles one_file) stocked) = Inr ''t1''
   \<and> tree_at (remote stocked) ''s0'' ''old.txt'' = Some ''o''
   \<and> tree_at (remote (snd (createTree (tree_host False) ''alice'' ''demo'' ''s0'' (sourceFiles one_file) stocked)))
        ''t1'' ''old.txt'' = None"
  by (simp add: run_defs tree_host_def stocked_def tree_at_def)

section \<open>The commit publisher\<close>

text \<open>
  Claim C2, as the code has it. \<^verbatim>\<open>pushCommit\<close> of tree \<open>T\<close> on branch tip \<open>P\<close>
  succeeds exactly when the client answers three requests in turn: the lookup of the commit
  at \<open>P\<close>, the creation of a commit whose tree is \<open>T\<close> and whose parent list is the single
  sha of the commit that the lookup returned, and the non-forced update of the reference to
  the commit created. The parent list is \<open>[P]\<close> when the remote answers the lookup with the
  commit addressed.
\<close>

theorem pushCommit_linear:
  "pushCommit octokit owner repo commitBranch P T aName aEmail message w = (Inr ref, w') \<longleftrightarrow>
     (\<exists>parent r1 created r2 r3.
        git_getCommit octokit
          \<lparr>getCommit_owner = owner, getCommit_repo = repo, getCommit_commit_sha = P\<rparr>
          (remote w) = (Inr parent, r1)
      \<and> git_createCommit octokit
          \<lparr>createCommit_owner = owner, createCommit_repo = repo,
           createCommit_message = message, createCommit_tree = T,
           createCommit_author =
             \<lparr>author_name = aName, author_email = aEmail, author_date = now w\<rparr>,
           createCommit_parents = [commit_sha parent]\<rparr>
          r1 = (Inr created, r2)
      \<and> git_updateRef octokit
          \<lparr>updateRef_owner = owner, updateRef_repo = repo,
           updateRef_ref = ''heads/'' @ commitBranch,
           updateRef_sha = commit_sha created, updateRef_force = False\<rparr>
          r2 = (Inr ref, r3)
      \<and> w' = w\<lparr>remote := r3,
                calls := calls w @
                  [(GitGetCommit
                      \<lparr>getCommit_owner = owner, getCommit_repo = repo,
                       getCommit_commit_sha = P\<rparr>, Inr (CommitData parent)),
                   (GitCreateCommit
                      \<lparr>createCommit_owner = owner, createCommit_repo = repo,
                       createCommit_message = message, createCommit_tree = T,
                       createCommit_author =
                         \<lparr>author_name = aName, author_email = aEmail, author_date = now w\<rparr>,
                       createCommit_parents = [commit_sha parent]\<rparr>, Inr (CommitData created)),
                   (GitUpdateRef
                      \<lparr>updateRef_owner = owner, updateRef_repo = repo,
                       updateRef_ref = ''heads/'' @ commitBranch,
                       updateRef_sha = commit_sha created, updateRef_force = False\<rparr>,
                    Inr (RefData ref))]\<rparr>)"
  unfolding pushCommit_def async_defs request_def
  by (auto split: prod.splits sum.splits)

theorem pushCommit_linear_witness:
  "fst (pushCommit (with_getCommit (Inr \<lparr>commit_sha = ''s0''\<rparr>))
          ''alice'' ''demo'' ''feature-x'' ''s0'' ''t1'' ''al'' ''al@e'' ''m'' (fresh True))
     = Inr \<lparr>object_sha = ''c1''\<rparr>
   \<and> created_parents (new_calls (fresh True)
        (snd (pushCommit (with_getCommit (Inr \<lparr>commit_sha = ''s0''\<rparr>))
          ''alice'' ''demo'' ''feature-x'' ''s0'' ''t1'' ''al'' ''al@e'' ''m'' (fresh True))))
     = [[''s0'']]"
proof -
  let ?run = "pushCommit (with_getCommit (Inr \<lparr>commit_sha = ''s0''\<rparr>))
          ''alice'' ''demo'' ''feature-x'' ''s0'' ''t1'' ''al'' ''al@e'' ''m'' (fresh True)"
  have ok: "fst ?run = Inr \<lparr>object_sha = ''c1''\<rparr>"
    by (simp add: run_defs with_getCommit_def)
  then have "?run = (Inr \<lparr>object_sha = ''c1''\<rparr>, snd ?run)"
    by (metis prod.collapse)
  from pushCommit_linear [THEN iffD1, OF this] obtain parent r1 where
    p: "git_getCommit (with_getCommit (Inr \<lparr>commit_sha = ''s0''\<rparr>))
          \<lparr>getCommit_owner = ''alice'', getCommit_repo = ''demo'', getCommit_commit_sha = ''s0''\<rparr>
          (remote (fresh True)) = (Inr parent, r1)"
    and c: "created_parents (new_calls (fresh True) (snd ?run)) = [[commit_sha parent]]"
    by (auto simp add: new_calls_def)
  from p have "commit_sha parent = ''s0''"
    by (auto simp add: with_getCommit_def scripted_def)
  with c ok show ?thesis
    by simp
qed

text \<open>
  With a remote that answers the lookup of \<^verbatim>\<open>s0\<close> with a commit of sha \<^verbatim>\<open>p9\<close>, the
  parent of the commit created is \<^verbatim>\<open>p9\<close>.
\<close>

theorem pushCommit_linear_counterexample:
  "fst (pushCommit (with_getCommit (Inr \<lparr>commit_sha = ''p9''\<rparr>))
          ''alice'' ''demo'' ''feature-x'' ''s0'' ''t1'' ''al'' ''al@e'' ''m'' (fresh True))
     = Inr \<lparr>object_sha = ''c1''\<rparr>
   \<and> created_parents (new_calls (fresh True)
        (snd (pushCommit (with_getCommit (Inr \<lparr>commit_sha = ''p9''\<rparr>))
          ''alice'' ''demo'' ''feature-x'' ''s0'' ''t1'' ''al'' ''al@e'' ''m'' (fresh True))))
     = [[''p9'']]
   \<and> created_parents (new_calls (fresh True)
        (snd (pushCommit (with_getCommit (Inr \<lparr>commit_sha = ''p9''\<rparr>))
          ''alice'' ''demo'' ''feature-x'' ''s0'' ''t1'' ''al'' ''al@e'' ''m'' (fresh True))))
     \<noteq> [[''s0'']]"
  by (simp add: run_defs with_getCommit_def)

section \<open>The pull request issuer\<close>

text \<open>
  Claim C5. \<^verbatim>\<open>createPullRequest\<close> (the stage the specification calls issuePullRequest)
  sends the client exactly one creation request, with head the source branch, and returns
  the response when the client resolves it. If the destination owner is unset (absent or
  the empty string) or equal to the source owner, the request goes to the source owner and
  its base is the destination branch as given; if it is set and different, the request goes
  to the destination owner and its base is \<^verbatim>\<open><sourceOwner>:<destinationBranch>\<close>. The
  repository is the source repository when the destination repository is unset, and the
  destination repository otherwise.
\<close>

theorem createPullRequest_destination:
  "\<exists>p out res w'.
     pulls_create octokit p (remote w) = (out, remote w')
     \<and> createPullRequest octokit pr w = (res, w')
     \<and> new_calls w w' = [(PullsCreate p, map_sum id PullData out)]
     \<and> (\<forall>d. out = Inr d \<longrightarrow> res = Inr (Some d))
     \<and> create_head p = sourceBranch pr
     \<and> (\<not> truthy_opt (destinationOwner pr) \<or> destinationOwner pr = Some (sourceOwner pr) \<longrightarrow>
          create_owner p = sourceOwner pr \<and> create_base p = destinationBranch pr)
     \<and> (truthy_opt (destinationOwner pr) \<and> destinationOwner pr \<noteq> Some (sourceOwner pr) \<longrightarrow>
          Some (create_owner p) = destinationOwner pr
          \<and> create_base p = sourceOwner pr @ '':'' @ destinationBranch pr)
     \<and> (\<not> truthy_opt (destinationRepo pr) \<longrightarrow> create_repo p = sourceRepo pr)
     \<and> (truthy_opt (destinationRepo pr) \<longrightarrow> Some (create_repo p) = destinationRepo pr)"
proof -
  obtain res w' where run: "createPullRequest octokit pr w = (res, w')"
    by force
  from createPullRequest_client [OF run] obtain out where
    t: "pulls_create octokit (create_request pr) (remote w) = (out, remote w')"
    and c: "calls w' = calls w @ [(PullsCreate (create_request pr), map_sum id PullData out)]"
    and r: "\<forall>d. out = Inr d \<longrightarrow> res = Inr (Some d)"
    by blast
  have d: "create_head (create_request pr) = sourceBranch pr
     \<and> (\<not> truthy_opt (destinationOwner pr) \<or> destinationOwner pr = Some (sourceOwner pr) \<longrightarrow>
          create_owner (create_request pr) = sourceOwner pr
          \<and> create_base (create_request pr) = destinationBranch pr)
     \<and> (truthy_opt (destinationOwner pr) \<and> destinationOwner pr \<noteq> Some (sourceOwner pr) \<longrightarrow>
          Some (create_owner (create_request pr)) = destinationOwner pr
          \<and> create_base (create_request pr) = sourceOwner pr @ '':'' @ destinationBranch pr)
     \<and> (\<not> truthy_opt (destinationRepo pr) \<longrightarrow> create_repo (create_request pr) = sourceRepo pr)
     \<and> (truthy_opt (destinationRepo pr) \<longrightarrow> Some (create_repo (create_request pr)) = destinationRepo pr)"
    by (cases "destinationOwner pr"; cases "destinationRepo pr")
       (simp_all add: create_request_def destination_def)
  from t run new_calls_append [OF c] r d show ?thesis
    by blast
qed

theorem createPullRequest_destination_witness:
  "(\<exists>p out res w'.
      pulls_create (remote_with (Inr \<lparr>object_sha = ''c1''\<rparr>) (Inr \<lparr>html_url = ''u''\<rparr>) ''token'')
        p (remote (fresh True)) = (out, remote w')
      \<and> createPullRequest (remote_with (Inr \<lparr>object_sha = ''c1''\<rparr>) (Inr \<lparr>html_url = ''u''\<rparr>) ''token'')
        alice_pr (fresh True) = (res, w')
      \<and> new_calls (fresh True) w' = [(PullsCreate p, map_sum id PullData out)]
      \<and> res = Inr (Some \<lparr>html_url = ''u''\<rparr>)
      \<and> create_head p = ''feature-x'' \<and> create_owner p = ''alice'' \<and> create_base p = ''main''
      \<and> create_repo p = ''demo'')
   \<and> (\<exists>p out res w'.
      pulls_create (remote_with (Inr \<lparr>object_sha = ''c1''\<rparr>) (Inr \<lparr>html_url = ''u''\<rparr>) ''token'')
        p (remote (fresh True)) = (out, remote w')
      \<and> createPullRequest (remote_with (Inr \<lparr>object_sha = ''c1''\<rparr>) (Inr \<lparr>html_url = ''u''\<rparr>) ''token'')
        (alice_pr\<lparr>destinationOwner := Some ''bob'', destinationRepo := Some ''upstream''\<rparr>)
        (fresh True) = (res, w')
      \<and> new_calls (fresh True) w' = [(PullsCreate p, map_sum id PullData out)]
      \<and> res = Inr (Some \<lparr>html_url = ''u''\<rparr>)
      \<and> create_head p = ''feature-x'' \<and> create_owner p = ''bob''
      \<and> create_base p = ''alice:main'' \<and> create_repo p = ''upstream'')"
proof
  let ?client = "remote_with (Inr \<lparr>object_sha = ''c1''\<rparr>) (Inr \<lparr>html_url = ''u''\<rparr>) ''token''"
  have answer: "out = Inr \<lparr>html_url = ''u''\<rparr>"
    if "pulls_create ?client p (remote (fresh True)) = (out, r)" for p out r
    using that by (auto simp add: remote_with_def scripted_def)
  from createPullRequest_destination [of ?client "fresh True" alice_pr]
  obtain p out res w' where
    "pulls_create ?client p (remote (fresh True)) = (out, remote w')"
    "createPullRequest ?client alice_pr (fresh True) = (res, w')"
    "new_calls (fresh True) w' = [(PullsCreate p, map_sum id PullData out)]"
    "\<forall>d. out = Inr d \<longrightarrow> res = Inr (Some d)"
    "create_head p = ''feature-x''" "create_owner p = ''alice''" "create_base p = ''main''"
    "create_repo p = ''demo''"
    by (auto simp add: alice_pr_def)
  with answer [OF this(1)] show "\<exists>p out res w'.
      pulls_create ?client p (remote (fresh True)) = (out, remote w')
      \<and> createPullRequest ?client alice_pr (fresh True) = (res, w')
      \<and> new_calls (fresh True) w' = [(PullsCreate p, map_sum id PullData out)]
      \<and> res = Inr (Some \<lparr>html_url = ''u''\<rparr>)
      \<and> create_head p = ''feature-x'' \<and> create_owner p = ''alice'' \<and> create_base p = ''main''
      \<and> create_repo p = ''demo''"
    by blast
  let ?fork = "alice_pr\<lparr>destinationOwner := Some ''bob'', destinationRepo := Some ''upstream''\<rparr>"
  from createPullRequest_destination [of ?client "fresh True" ?fork]
  obtain p out res w' where
    "pulls_create ?client p (remote (fresh True)) = (out, remote w')"
    "createPullRequest ?client ?fork (fresh True) = (res, w')"
    "new_calls (fresh True) w' = [(PullsCreate p, map_sum id PullData out)]"
    "\<forall>d. out = Inr d \<longrightarrow> res = Inr (Some d)"
    "create_head p = ''feature-x''" "create_owner p = ''bob''" "create_base p = ''alice:main''"
    "create_repo p = ''upstream''"
    by (auto simp add: alice_pr_def truthy_def)
  with answer [OF this(1)] show "\<exists>p out res w'.
      pulls_create ?client p (remote (fresh True)) = (out, remote w')
      \<and> createPullRequest ?client ?fork (fresh True) = (res, w')
      \<and> new_calls (fresh True) w' = [(PullsCreate p, map_sum id PullData out)]
      \<and> res = Inr (Some \<lparr>html_url = ''u''\<rparr>)
      \<and> create_head p = ''feature-x'' \<and> create_owner p = ''bob''
      \<and> create_base p = ''alice:main'' \<and> create_repo p = ''upstream''"
    by blast
qed





section \<open>The publish call as a whole\<close>






text \<open>
  Claim C10. Whenever \<^verbatim>\<open>issuePullRequestWithToken\<close> throws, the \<^verbatim>\<open>try\<close> block threw
  some value \<open>e\<close> and what the caller gets is a new \<^verbatim>\<open>Error\<close> whose message is
  \<^verbatim>\<open>Unhandled error in GH response\<close>, a line feed, and \<^verbatim>\<open>JSON.stringify(e)\<close>. For an
  \<open>e\<close> that is itself an \<^verbatim>\<open>Error\<close> made by an inner stage, such as
  \<^verbatim>\<open>No active window\<close>, that JSON text is \<^verbatim>\<open>{}\<close>.
\<close>

theorem errors_are_wrapped:
  assumes run: "issuePullRequestWithToken newOctokit pr cs tok w = (Inl err, w')"
  shows "\<exists>e. issuePullRequestWithToken_try (Client newOctokit tok) pr cs w = (Inl e, w')
           \<and> err = JsError (''Unhandled error in GH response'' @ [CHR 0x0A] @ JSON_stringify e)"
  using run
  by (auto simp add: issuePullRequestWithToken_cases unhandled_message_def split: prod.splits sum.splits)

theorem errors_are_wrapped_witness:
  "issuePullRequestWithToken_try
     (Client (remote_with (Inr \<lparr>object_sha = ''c1''\<rparr>) (Inr \<lparr>html_url = ''u''\<rparr>)) ''token'')
     alice_pr one_file (fresh False)
     = (Inl (JsError ''No active window''),
        snd (issuePullRequestWithToken
               (remote_with (Inr \<lparr>object_sha = ''c1''\<rparr>) (Inr \<lparr>html_url = ''u''\<rparr>))
               alice_pr one_file ''token'' (fresh False)))
   \<and> fst (issuePullRequestWithToken
            (remote_with (Inr \<lparr>object_sha = ''c1''\<rparr>) (Inr \<lparr>html_url = ''u''\<rparr>))
            alice_pr one_file ''token'' (fresh False))
       = Inl (JsError (''Unhandled error in GH response'' @ [CHR 0x0A] @ ''{}''))"
proof -
  let ?new = "remote_with (Inr \<lparr>object_sha = ''c1''\<rparr>) (Inr \<lparr>html_url = ''u''\<rparr>)"
  let ?run = "issuePullRequestWithToken ?new alice_pr one_file ''token'' (fresh False)"
  let ?err = "JsError (''Unhandled error in GH response'' @ [CHR 0x0A] @ ''{}'')"
  have run: "?run = (Inl ?err, snd ?run)"
    by (simp add: run_defs)
  have inner: "fst (issuePullRequestWithToken_try (Client ?new ''token'') alice_pr one_file (fresh False))
                 = Inl (JsError ''No active window'')"
    by (simp add: run_defs)
  have outer: "fst ?run = Inl ?err"
    by (simp add: run_defs)
  from errors_are_wrapped [OF run] obtain e where
    e: "issuePullRequestWithToken_try (Client ?new ''token'') alice_pr one_file (fresh False)
          = (Inl e, snd ?run)"
    by blast
  with inner have "e = JsError ''No active window''"
    by simp
  with e outer show ?thesis
    by simp
qed

end
